theory Spec2Isabelle
  imports Main "HOL-Library.Word"
begin

section \<open>The upload writer of internal/pdcp/writer.go\<close>

text \<open>
  The theory embeds \<^verbatim>\<open>internal/pdcp/writer.go\<close>: the constructor
  \<^verbatim>\<open>NewUploadWriter\<close>, \<^verbatim>\<open>SetScanID\<close>, the reading goroutine and the
  select loop of \<^verbatim>\<open>autoCommit\<close>, \<^verbatim>\<open>uploadChunk\<close>, \<^verbatim>\<open>upload\<close>
  and \<^verbatim>\<open>getRequest\<close>. Byte slices and Go strings are \<open>string\<close> (a list of
  characters, one per byte), so \<^verbatim>\<open>len\<close> is \<open>length\<close>.
\<close>

subsection \<open>Constants (lines 25-30) and constants of net/http\<close>

definition uploadEndpoint :: string where
  "uploadEndpoint = ''/v1/scans/import''"

text \<open>\<^verbatim>\<open>fmt.Sprintf(appendEndpoint, id)\<close> with \<^verbatim>\<open>appendEndpoint = "/v1/scans/%s/import"\<close>.\<close>

definition appendEndpoint :: "string \<Rightarrow> string" where
  "appendEndpoint sid = ''/v1/scans/'' @ sid @ ''/import''"

definition MaxChunkSize :: nat where
  "MaxChunkSize = 1024 * 1024 * 4"

definition MethodPost :: string where
  "MethodPost = ''POST''"

definition MethodPatch :: string where
  "MethodPatch = ''PATCH''"

definition StatusOK :: int where
  "StatusOK = 200"

subsection \<open>Errors\<close>

text \<open>
  \<open>Errorf\<close> is \<^verbatim>\<open>fmt.Errorf\<close> with a constant message, \<open>ErrorfStatus code url\<close>
  the error of line 191 (its two \<^verbatim>\<open>%v\<close> arguments kept apart),
  \<open>Msgf e m\<close> is \<^verbatim>\<open>errorutil.NewWithErr(e).Msgf(m)\<close>, and \<open>LibraryError\<close> is
  an error value handed back by a library call (the transport, the reader, the JSON
  decoder, the URL parser).
\<close>

datatype error =
    Errorf string
  | ErrorfStatus int string
  | Msgf error string
  | LibraryError string

subsection \<open>Data\<close>

text \<open>The two fields of \<^verbatim>\<open>pdcpauth.PDCPCredentials\<close> that the file reads.\<close>

record PDCPCredentials =
  Server :: string
  APIKey :: string

text \<open>The fields of \<^verbatim>\<open>net/url.URL\<close> that matter here.\<close>

record URL =
  Scheme :: string
  Host :: string
  Path :: string
  RawQuery :: string

text \<open>
  A request as \<^verbatim>\<open>getRequest\<close> builds it: the method and URL string given to
  \<^verbatim>\<open>retryablehttp.NewRequest\<close>, the body, the raw query set on line 223 and the
  header fields set on lines 224-226. \<^verbatim>\<open>Header.Set\<close> and \<^verbatim>\<open>Header.Get\<close>
  of net/http store and look up a value under the canonical form of the name, and
  \<^verbatim>\<open>Set\<close> replaces what was stored, so the header is a map from canonical names
  to values (\<open>Header_Set\<close> and \<open>Header_Get\<close> below).
\<close>

record Request =
  Method :: string
  ReqURL :: string
  Body :: string
  ReqRawQuery :: string
  Header :: "string \<rightharpoonup> string"

text \<open>
  What \<^verbatim>\<open>upload\<close> reads of a response: the status code, the outcome of
  \<^verbatim>\<open>io.ReadAll(resp.Body)\<close> and \<^verbatim>\<open>resp.Request.URL.String()\<close>.
\<close>

record Response =
  StatusCode :: int
  ReadAll_Body :: "error + string"
  Request_URL :: string

text \<open>
  The type \<^verbatim>\<open>uploadResponse\<close> is declared in another file of the package; the
  only field read here is \<^verbatim>\<open>ID\<close>.
\<close>

record uploadResponse =
  ID :: string

text \<open>
  The struct \<^verbatim>\<open>UploadWriter\<close> (lines 36-45). \<^verbatim>\<open>creds\<close> and
  \<^verbatim>\<open>uploadURL\<close> are pointers that \<^verbatim>\<open>NewUploadWriter\<close>, the only
  constructor, sets to non-nil values before it returns the writer; the record holds
  what they point to. The embedded standard writer, the HTTP client, the cancel
  function and the \<^verbatim>\<open>done\<close> channel appear as the environment and as the
  state of the loop below. \<^verbatim>\<open>counter\<close> is an \<^verbatim>\<open>atomic.Int32\<close>.
\<close>

record UploadWriter =
  creds :: PDCPCredentials
  uploadURL :: URL
  scanID :: string
  counter :: "32 word"

subsection \<open>The library calls, as parameters\<close>

text \<open>
  Everything the file calls outside itself is a field of the environment, so that every
  theorem holds for any behaviour of these calls. \<open>client_Do\<close> takes the requests
  already handed to \<^verbatim>\<open>u.client.Do\<close> and the present one, so that the server may
  answer each call differently.
\<close>

record env =
  output_NewWriter :: "error option"
  urlutil_Parse :: "string \<Rightarrow> error + URL"
  urlutil_Update :: "URL \<Rightarrow> URL"
  URL_String :: "URL \<Rightarrow> string"
  retryablehttp_NewRequest :: "string \<Rightarrow> string \<Rightarrow> error option"
  GetpdtmParams :: "string \<Rightarrow> string"
  config_Version :: string
  ApiKeyHeaderName :: string
  CanonicalMIMEHeaderKey :: "string \<Rightarrow> string"
  client_Do :: "Request list \<Rightarrow> Request \<Rightarrow> error + Response"
  json_Unmarshal :: "string \<Rightarrow> error + uploadResponse"
  getScanDashBoardURL :: "string \<Rightarrow> string"

definition Header_Set :: "env \<Rightarrow> (string \<rightharpoonup> string) \<Rightarrow> string \<Rightarrow> string \<Rightarrow> (string \<rightharpoonup> string)" where
  "Header_Set E h k v = h(CanonicalMIMEHeaderKey E k \<mapsto> v)"

definition Header_Get :: "env \<Rightarrow> (string \<rightharpoonup> string) \<Rightarrow> string \<Rightarrow> string option" where
  "Header_Get E h k = h (CanonicalMIMEHeaderKey E k)"

subsection \<open>NewUploadWriter (lines 48-86) and SetScanID (lines 89-91)\<close>

text \<open>
  The credentials are a pointer: \<open>None\<close> is \<^verbatim>\<open>nil\<close>. The writer returned has an
  empty scan id and a zero counter (the zero values of the struct literal on line 52).
  The goroutine started on line 84 is \<open>autoCommit\<close> below.
\<close>

definition NewUploadWriter :: "env \<Rightarrow> PDCPCredentials option \<Rightarrow> error + UploadWriter" where
  "NewUploadWriter E c =
     (case c of
        None \<Rightarrow> Inl (Errorf ''no credentials provided'')
      | Some cr \<Rightarrow>
          (case output_NewWriter E of
             Some err \<Rightarrow> Inl (Msgf err ''could not create output writer'')
           | None \<Rightarrow>
               (case urlutil_Parse E (Server cr) of
                  Inl err \<Rightarrow> Inl (Msgf err ''could not parse server url'')
                | Inr tmp \<Rightarrow>
                    Inr \<lparr>creds = cr,
                         uploadURL = urlutil_Update E (tmp\<lparr>Path := uploadEndpoint\<rparr>),
                         scanID = [],
                         counter = 0\<rparr>)))"

definition SetScanID :: "UploadWriter \<Rightarrow> string \<Rightarrow> UploadWriter" where
  "SetScanID u sid = u\<lparr>scanID := sid\<rparr>"

subsection \<open>getRequest (lines 206-228)\<close>

text \<open>
  \<^verbatim>\<open>getRequest\<close> writes the path of \<^verbatim>\<open>u.uploadURL\<close>, so it returns the
  writer too.
\<close>

definition getRequest :: "env \<Rightarrow> UploadWriter \<Rightarrow> string \<Rightarrow> (error + Request) \<times> UploadWriter" where
  "getRequest E u bin =
     (let u' = (if scanID u = []
                then u\<lparr>uploadURL := (uploadURL u)\<lparr>Path := uploadEndpoint\<rparr>\<rparr>
                else u\<lparr>uploadURL := (uploadURL u)\<lparr>Path := appendEndpoint (scanID u)\<rparr>\<rparr>);
          method = (if scanID u = [] then MethodPost else MethodPatch);
          url = URL_String E (uploadURL u')
      in (case retryablehttp_NewRequest E method url of
            Some err \<Rightarrow> (Inl (Msgf err ''could not create cloud upload request''), u')
          | None \<Rightarrow>
              (Inr \<lparr>Method = method, ReqURL = url, Body = bin,
                    ReqRawQuery = GetpdtmParams E (config_Version E),
                    Header =
                      Header_Set E
                        (Header_Set E
                           (Header_Set E Map.empty (ApiKeyHeaderName E) (APIKey (creds u)))
                           ''Content-Type'' ''application/octet-stream'')
                        ''Accept'' ''application/json''\<rparr>, u')))"

subsection \<open>upload (lines 176-201)\<close>

text \<open>
  The second component of the argument and of the result is the list of the requests
  handed to \<^verbatim>\<open>u.client.Do\<close> so far, oldest first.
\<close>

definition upload :: "env \<Rightarrow> string \<Rightarrow> UploadWriter \<times> Request list \<Rightarrow> error option \<times> UploadWriter \<times> Request list" where
  "upload E data un =
     (case un of (u, sent) \<Rightarrow>
        (case getRequest E u data of
           (Inl err, u1) \<Rightarrow> (Some (Msgf err ''could not create upload request''), u1, sent)
         | (Inr req, u1) \<Rightarrow>
             (case client_Do E sent req of
                Inl err \<Rightarrow> (Some (Msgf err ''could not upload results''), u1, sent @ [req])
              | Inr resp \<Rightarrow>
                  (case ReadAll_Body resp of
                     Inl err \<Rightarrow> (Some (Msgf err ''could not get id from response''), u1, sent @ [req])
                   | Inr bin \<Rightarrow>
                       if StatusCode resp \<noteq> StatusOK
                       then (Some (ErrorfStatus (StatusCode resp) (Request_URL resp)), u1, sent @ [req])
                       else (case json_Unmarshal E bin of
                               Inl err \<Rightarrow> (Some (Msgf err (''could not unmarshal response got '' @ bin)), u1, sent @ [req])
                             | Inr uploadResp \<Rightarrow>
                                 (None,
                                  (if ID uploadResp \<noteq> [] \<and> scanID u1 = []
                                   then u1\<lparr>scanID := ID uploadResp\<rparr> else u1),
                                  sent @ [req]))))))"

subsection \<open>The state of autoCommit\<close>

text \<open>
  What the functions log through \<^verbatim>\<open>gologger\<close>: the error of lines 132, 140, 147
  and 155, the warning of line 172 (with the dashboard URL), and the two summaries of
  lines 117 and 119 (the latter with \<^verbatim>\<open>u.counter.Load()\<close> and the dashboard URL).
\<close>

datatype log_entry =
    Error_FailedUpload error
  | Warning_UploadedChunk string
  | Verbose_UploadSkipped
  | Info_Uploaded "32 word" string

text \<open>
  The writer, the local buffer \<^verbatim>\<open>buff\<close> of line 123, the requests handed to the
  client so far, the log, and whether the deferred function of lines 112-121 has run
  (it sends the one value on \<^verbatim>\<open>u.done\<close> and closes it).
\<close>

record state =
  uw :: UploadWriter
  buff :: string
  sent :: "Request list"
  logs :: "log_entry list"
  returned :: bool

subsection \<open>uploadChunk (lines 165-174)\<close>

definition uploadChunk :: "env \<Rightarrow> state \<Rightarrow> error option \<times> state" where
  "uploadChunk E s =
     (case upload E (buff s) (uw s, sent s) of
        (Some err, u', sent') \<Rightarrow>
          (Some (Msgf err ''could not upload chunk''), s\<lparr>uw := u', sent := sent'\<rparr>)
      | (None, u', sent') \<Rightarrow>
          (None, s\<lparr>uw := u', sent := sent', buff := [],
                   logs := logs s @ [Warning_UploadedChunk (getScanDashBoardURL E (scanID u'))]\<rparr>))"

subsection \<open>The reading goroutine (lines 98-109)\<close>

text \<open>
  \<^verbatim>\<open>reader.ReadString(delim)\<close> on the bytes that the pipe still delivers before it
  is closed: the bytes up to and with the first delimiter and no error, or, when the
  bytes end first, the bytes read and an error. The third component is what is left
  to read.
\<close>

fun ReadString :: "char \<Rightarrow> string \<Rightarrow> string \<times> error option \<times> string" where
  "ReadString delim [] = ([], Some (LibraryError ''EOF''), [])"
| "ReadString delim (c # cs) =
     (if c = delim then ([c], None, cs)
      else (case ReadString delim cs of (data, err, rest) \<Rightarrow> (c # data, err, rest)))"

definition newline :: char where
  "newline = CHR 0x0A"

text \<open>
  The loop of the goroutine: the lines it sends on \<^verbatim>\<open>ch\<close>, in order, and the
  counter after the last \<^verbatim>\<open>u.counter.Add(1)\<close>. On an error it returns, and the
  deferred calls close the channel; the bytes read with the error are discarded.
\<close>

function collector :: "string \<Rightarrow> 32 word \<Rightarrow> string list \<times> 32 word" where
  "collector input cnt =
     (case ReadString newline input of
        (data, Some err, rest) \<Rightarrow> ([], cnt)
      | (data, None, rest) \<Rightarrow>
          (case collector rest (cnt + 1) of (lines, cnt') \<Rightarrow> (data # lines, cnt')))"
  by pat_completeness auto
termination
proof (relation "measure (\<lambda>(input, cnt). length input)")
  show "wf (measure (\<lambda>(input, cnt). length input))" by simp
next
  fix input :: string and cnt :: "32 word" and x y xa ya
  assume a: "(x, y) = ReadString newline input" "(xa, ya) = y" "xa = None"
  have "ReadString newline xs = (d, None, r) \<Longrightarrow> length r < length xs" for xs d r
    by (induction xs arbitrary: d r) (auto split: if_splits prod.splits)
  with a have "length ya < length input" by metis
  then show "((ya, cnt + 1), input, cnt) \<in> measure (\<lambda>(input, cnt). length input)"
    by simp
qed

subsection \<open>The select loop of autoCommit (lines 123-161)\<close>

text \<open>
  One constructor for each case that the \<^verbatim>\<open>select\<close> can take: the context is
  done, the ticker fires, a line arrives on \<^verbatim>\<open>ch\<close>, or \<^verbatim>\<open>ch\<close> is closed
  and empty (\<^verbatim>\<open>ok\<close> is false). Every run of the loop is the list of the cases
  it takes. The counter is written by the reading goroutine only; the loop reads it in
  the deferred function.
\<close>

datatype event = CtxDone | TickerC | ChLine string | ChClosed

text \<open>\<^verbatim>\<open>if err := u.uploadChunk(buff); err != nil { gologger.Error()... }\<close>\<close>

definition uploadChunk_logged :: "env \<Rightarrow> state \<Rightarrow> state" where
  "uploadChunk_logged E s =
     (case uploadChunk E s of
        (Some err, s') \<Rightarrow> s'\<lparr>logs := logs s' @ [Error_FailedUpload err]\<rparr>
      | (None, s') \<Rightarrow> s')"

text \<open>The deferred function of lines 112-121, run when \<^verbatim>\<open>autoCommit\<close> returns.\<close>

definition autoCommit_deferred :: "env \<Rightarrow> state \<Rightarrow> state" where
  "autoCommit_deferred E s =
     s\<lparr>returned := True,
       logs := logs s @
         [if scanID (uw s) = [] then Verbose_UploadSkipped
          else Info_Uploaded (counter (uw s)) (getScanDashBoardURL E (scanID (uw s)))]\<rparr>"

text \<open>One turn of the \<^verbatim>\<open>for { select { ... } }\<close> loop.\<close>

fun select_case :: "env \<Rightarrow> event \<Rightarrow> state \<Rightarrow> state" where
  "select_case E CtxDone s =
     autoCommit_deferred E (if length (buff s) > 0 then uploadChunk_logged E s else s)"
| "select_case E TickerC s =
     (if length (buff s) > 0 then uploadChunk_logged E s else s)"
| "select_case E ChClosed s =
     autoCommit_deferred E (if length (buff s) > 0 then uploadChunk_logged E s else s)"
| "select_case E (ChLine line) s =
     (if length (buff s) + length line > MaxChunkSize
      then uploadChunk_logged E s
      else s\<lparr>buff := buff s @ line\<rparr>)"

text \<open>
  The loop, driven by the cases the \<^verbatim>\<open>select\<close> takes, in order. It stops taking
  cases once the function has returned; when the list ends first the goroutine is
  waiting in the \<^verbatim>\<open>select\<close>.
\<close>

fun autoCommit_loop :: "env \<Rightarrow> event list \<Rightarrow> state \<Rightarrow> state" where
  "autoCommit_loop E [] s = s"
| "autoCommit_loop E (e # es) s =
     (if returned s then s else autoCommit_loop E es (select_case E e s))"

text \<open>\<^verbatim>\<open>autoCommit\<close> from its start: an empty buffer (line 123).\<close>

definition autoCommit_start :: "UploadWriter \<Rightarrow> state" where
  "autoCommit_start u = \<lparr>uw = u, buff = [], sent = [], logs = [], returned = False\<rparr>"

definition autoCommit :: "env \<Rightarrow> event list \<Rightarrow> UploadWriter \<Rightarrow> state" where
  "autoCommit E es u = autoCommit_loop E es (autoCommit_start u)"

text \<open>
  The two goroutines on a pipe that delivers the bytes \<open>input\<close> and is then closed,
  when neither the ticker fires nor the context is cancelled before the end: the loop
  receives every line the reading goroutine sends, then finds the channel closed. The
  counter is read only by the deferred function, after the reading goroutine has
  returned, so it is set to its last value at once.
\<close>

definition autoCommit_stream :: "env \<Rightarrow> string \<Rightarrow> UploadWriter \<Rightarrow> state" where
  "autoCommit_stream E input u =
     (case collector input (counter u) of
        (lines, cnt) \<Rightarrow> autoCommit E (map ChLine lines @ [ChClosed]) (u\<lparr>counter := cnt\<rparr>))"

subsection \<open>Example environments\<close>

text \<open>
  Concrete library behaviour, used to run the definitions: a server URL that parses, a
  URL printed as scheme, host and path, header names that are canonical already, a
  decoder that knows three bodies, and a transport given as an argument.
\<close>

definition example_creds :: PDCPCredentials where
  "example_creds = \<lparr>Server = ''https://api.example.io'', APIKey = ''secret''\<rparr>"

definition example_env :: "(Request list \<Rightarrow> Request \<Rightarrow> error + Response) \<Rightarrow> env" where
  "example_env transport =
     \<lparr>output_NewWriter = None,
      urlutil_Parse = (\<lambda>s. if s = ''https://api.example.io''
                            then Inr \<lparr>Scheme = ''https'', Host = ''api.example.io'', Path = [], RawQuery = []\<rparr>
                            else Inl (LibraryError ''invalid url'')),
      urlutil_Update = (\<lambda>u. u),
      URL_String = (\<lambda>u. Scheme u @ ''://'' @ Host u @ Path u),
      retryablehttp_NewRequest = (\<lambda>m u. None),
      GetpdtmParams = (\<lambda>v. ''v='' @ v),
      config_Version = ''3.0.0'',
      ApiKeyHeaderName = ''X-Api-Key'',
      CanonicalMIMEHeaderKey = (\<lambda>k. k),
      client_Do = transport,
      json_Unmarshal = (\<lambda>bin. if bin = ''{id:s1}'' then Inr \<lparr>ID = ''s1''\<rparr>
                              else if bin = ''{id:s2}'' then Inr \<lparr>ID = ''s2''\<rparr>
                              else if bin = ''{}'' then Inr \<lparr>ID = []\<rparr>
                              else Inl (LibraryError ''invalid character'')),
      getScanDashBoardURL = (\<lambda>sid. ''https://cloud.example.io/scans/'' @ sid)\<rparr>"

text \<open>A server that accepts every chunk and answers with the body given.\<close>

definition server_ok :: "string \<Rightarrow> Request list \<Rightarrow> Request \<Rightarrow> error + Response" where
  "server_ok body hist req =
     Inr \<lparr>StatusCode = 200, ReadAll_Body = Inr body, Request_URL = ReqURL req\<rparr>"

text \<open>A transport that fails on every call.\<close>

definition server_down :: "Request list \<Rightarrow> Request \<Rightarrow> error + Response" where
  "server_down hist req = Inl (LibraryError ''connection refused'')"

text \<open>A transport that fails on the first call and accepts the later ones.\<close>

definition server_down_once :: "Request list \<Rightarrow> Request \<Rightarrow> error + Response" where
  "server_down_once hist req = (if hist = [] then server_down hist req else server_ok ''{id:s1}'' hist req)"

text \<open>A server that answers the first call with one identifier and the later ones with another.\<close>

definition server_two_ids :: "Request list \<Rightarrow> Request \<Rightarrow> error + Response" where
  "server_two_ids hist req = (if hist = [] then server_ok ''{id:s1}'' hist req else server_ok ''{id:s2}'' hist req)"

text \<open>A server that answers with status 500 and a body that cannot be read to its end.\<close>

definition server_broken_body :: "Request list \<Rightarrow> Request \<Rightarrow> error + Response" where
  "server_broken_body hist req =
     Inr \<lparr>StatusCode = 500, ReadAll_Body = Inl (LibraryError ''unexpected EOF''), Request_URL = ReqURL req\<rparr>"

text \<open>A record that fills a chunk to the last byte: \<open>MaxChunkSize - 1\<close> bytes and the newline.\<close>

definition full_record :: string where
  "full_record = replicate (MaxChunkSize - 1) CHR ''a'' @ [newline]"

text \<open>A stream of two records: the full one and a short one.\<close>

definition two_records :: string where
  "two_records = full_record @ ''b'' @ [newline]"

text \<open>The writer that \<open>NewUploadWriter\<close> returns in the example environment.\<close>

definition example_writer :: UploadWriter where
  "example_writer =
     \<lparr>creds = example_creds,
      uploadURL = \<lparr>Scheme = ''https'', Host = ''api.example.io'', Path = ''/v1/scans/import'', RawQuery = []\<rparr>,
      scanID = [],
      counter = 0\<rparr>"

section \<open>Properties\<close>

subsection \<open>What getRequest leaves alone\<close>

lemma getRequest_keeps:
  "scanID (snd (getRequest E u bin)) = scanID u"
  "creds (snd (getRequest E u bin)) = creds u"
  "counter (snd (getRequest E u bin)) = counter u"
  by (simp_all add: getRequest_def Let_def split: option.splits)

lemma getRequest_Body:
  "getRequest E u bin = (Inr req, u') \<Longrightarrow> Body req = bin"
  by (auto simp: getRequest_def Let_def split: option.splits)

subsection \<open>The six ways through upload\<close>

lemma upload_cases:
  obtains
    (request) err u1 where "getRequest E u data = (Inl err, u1)"
      "upload E data (u, hist) = (Some (Msgf err ''could not create upload request''), u1, hist)"
  | (transport) req u1 err where "getRequest E u data = (Inr req, u1)" "client_Do E hist req = Inl err"
      "upload E data (u, hist) = (Some (Msgf err ''could not upload results''), u1, hist @ [req])"
  | (body) req u1 resp err where "getRequest E u data = (Inr req, u1)" "client_Do E hist req = Inr resp"
      "ReadAll_Body resp = Inl err"
      "upload E data (u, hist) = (Some (Msgf err ''could not get id from response''), u1, hist @ [req])"
  | (status) req u1 resp bin where "getRequest E u data = (Inr req, u1)" "client_Do E hist req = Inr resp"
      "ReadAll_Body resp = Inr bin" "StatusCode resp \<noteq> 200"
      "upload E data (u, hist) = (Some (ErrorfStatus (StatusCode resp) (Request_URL resp)), u1, hist @ [req])"
  | (unmarshal) req u1 resp bin err where "getRequest E u data = (Inr req, u1)" "client_Do E hist req = Inr resp"
      "ReadAll_Body resp = Inr bin" "StatusCode resp = 200" "json_Unmarshal E bin = Inl err"
      "upload E data (u, hist) = (Some (Msgf err (''could not unmarshal response got '' @ bin)), u1, hist @ [req])"
  | (ok) req u1 resp bin r where "getRequest E u data = (Inr req, u1)" "client_Do E hist req = Inr resp"
      "ReadAll_Body resp = Inr bin" "StatusCode resp = 200" "json_Unmarshal E bin = Inr r"
      "upload E data (u, hist) =
         (None, (if ID r \<noteq> [] \<and> scanID u1 = [] then u1\<lparr>scanID := ID r\<rparr> else u1), hist @ [req])"
proof (cases "getRequest E u data")
  case (Pair a u1)
  show ?thesis
  proof (cases a)
    case (Inl err)
    with Pair request show ?thesis by (simp add: upload_def)
  next
    case (Inr req)
    note g = Pair [unfolded Inr]
    show ?thesis
    proof (cases "client_Do E hist req")
      case (Inl err)
      with g transport show ?thesis by (simp add: upload_def)
    next
      case (Inr resp)
      note d = Inr
      show ?thesis
      proof (cases "ReadAll_Body resp")
        case (Inl err)
        with g d body show ?thesis by (simp add: upload_def)
      next
        case (Inr bin)
        note b = Inr
        show ?thesis
        proof (cases "StatusCode resp = 200")
          case False
          with g d b status show ?thesis by (simp add: upload_def StatusOK_def)
        next
          case True
          show ?thesis
          proof (cases "json_Unmarshal E bin")
            case (Inl err)
            with g d b True unmarshal show ?thesis by (simp add: upload_def StatusOK_def)
          next
            case (Inr r)
            with g d b True ok show ?thesis by (simp add: upload_def StatusOK_def)
          qed
        qed
      qed
    qed
  qed
qed


lemma getRequest_keeps':
  assumes "getRequest E u bin = (r, u1)"
  shows "scanID u1 = scanID u" "creds u1 = creds u" "counter u1 = counter u"
  using getRequest_keeps [of E u bin] assms by simp_all

lemma upload_scanID_kept:
  "scanID u \<noteq> [] \<Longrightarrow> scanID (fst (snd (upload E data (u, hist)))) = scanID u"
  by (cases rule: upload_cases [of E u data hist]) (auto dest: getRequest_keeps')

lemma upload_failed_scanID:
  "fst (upload E data (u, hist)) \<noteq> None \<Longrightarrow> scanID (fst (snd (upload E data (u, hist)))) = scanID u"
  by (cases rule: upload_cases [of E u data hist]) (auto dest: getRequest_keeps')

lemma upload_creds:
  "creds (fst (snd (upload E data (u, hist)))) = creds u"
  by (cases rule: upload_cases [of E u data hist]) (auto dest: getRequest_keeps')

lemma upload_counter:
  "counter (fst (snd (upload E data (u, hist)))) = counter u"
  by (cases rule: upload_cases [of E u data hist]) (auto dest: getRequest_keeps')

lemma upload_ok_sent:
  assumes "fst (upload E data (u, hist)) = None"
  shows "\<exists>req. snd (snd (upload E data (u, hist))) = hist @ [req] \<and> Body req = data"
  using assms by (cases rule: upload_cases [of E u data hist]) (auto dest: getRequest_Body)

lemma upload_error_shape:
  "fst (upload E data (u, hist)) \<noteq> Some (Errorf m)"
  by (cases rule: upload_cases [of E u data hist]) auto


subsection \<open>uploadChunk\<close>

lemma uploadChunk_result:
  "fst (uploadChunk E s) =
     map_option (\<lambda>err. Msgf err ''could not upload chunk'') (fst (upload E (buff s) (uw s, sent s)))"
  by (simp add: uploadChunk_def split: prod.splits option.splits)

lemma uploadChunk_buff:
  "buff (snd (uploadChunk E s)) = (if fst (upload E (buff s) (uw s, sent s)) = None then [] else buff s)"
  by (simp add: uploadChunk_def split: prod.splits option.splits)

lemma uploadChunk_sent:
  "sent (snd (uploadChunk E s)) = snd (snd (upload E (buff s) (uw s, sent s)))"
  by (simp add: uploadChunk_def split: prod.splits option.splits)

lemma uploadChunk_uw:
  "uw (snd (uploadChunk E s)) = fst (snd (upload E (buff s) (uw s, sent s)))"
  by (simp add: uploadChunk_def split: prod.splits option.splits)

lemma uploadChunk_returned:
  "returned (snd (uploadChunk E s)) = returned s"
  by (simp add: uploadChunk_def split: prod.splits option.splits)

lemma uploadChunk_logs:
  "logs (snd (uploadChunk E s)) =
     (if fst (upload E (buff s) (uw s, sent s)) = None
      then logs s @ [Warning_UploadedChunk (getScanDashBoardURL E (scanID (uw (snd (uploadChunk E s)))))]
      else logs s)"
  by (simp add: uploadChunk_def split: prod.splits option.splits)

lemma uploadChunk_logged_fields:
  "buff (uploadChunk_logged E s) = buff (snd (uploadChunk E s))"
  "sent (uploadChunk_logged E s) = sent (snd (uploadChunk E s))"
  "uw (uploadChunk_logged E s) = uw (snd (uploadChunk E s))"
  "returned (uploadChunk_logged E s) = returned s"
  by (simp_all add: uploadChunk_logged_def uploadChunk_def split: prod.splits option.splits)

lemma uploadChunk_logged_logs:
  "logs (uploadChunk_logged E s) =
     logs (snd (uploadChunk E s)) @
       (case fst (uploadChunk E s) of None \<Rightarrow> [] | Some err \<Rightarrow> [Error_FailedUpload err])"
  by (simp add: uploadChunk_logged_def split: prod.splits option.splits)

subsection \<open>The loop\<close>

lemma loop_returned: "returned s \<Longrightarrow> autoCommit_loop E es s = s"
  by (cases es) simp_all

lemma loop_append:
  "autoCommit_loop E (es @ fs) s = autoCommit_loop E fs (autoCommit_loop E es s)"
  by (induction es arbitrary: s) (simp_all add: loop_returned)

lemma loop_lines_fit:
  "\<not> returned s \<Longrightarrow> length (buff s) + sum_list (map length ls) \<le> MaxChunkSize \<Longrightarrow>
   autoCommit_loop E (map ChLine ls) s = s\<lparr>buff := buff s @ concat ls\<rparr>"
  by (induction ls arbitrary: s) simp_all

lemma select_case_scanID:
  "scanID (uw s) \<noteq> [] \<Longrightarrow> scanID (uw (select_case E e s)) = scanID (uw s)"
  by (cases e)
     (simp_all add: autoCommit_deferred_def uploadChunk_logged_fields uploadChunk_uw upload_scanID_kept)

lemma loop_scanID:
  "scanID (uw s) \<noteq> [] \<Longrightarrow> scanID (uw (autoCommit_loop E es s)) = scanID (uw s)"
  by (induction es arbitrary: s) (simp_all add: select_case_scanID)

lemma select_case_creds:
  "creds (uw (select_case E e s)) = creds (uw s)"
  by (cases e)
     (simp_all add: autoCommit_deferred_def uploadChunk_logged_fields uploadChunk_uw upload_creds)

lemma loop_creds:
  "creds (uw (autoCommit_loop E es s)) = creds (uw s)"
  by (induction es arbitrary: s) (simp_all add: select_case_creds)

subsection \<open>Errors of construction and of the loop\<close>

lemma NewUploadWriter_cases:
  "NewUploadWriter E c = Inl (Errorf m) \<Longrightarrow> c = None"
  "NewUploadWriter E c = Inr u \<Longrightarrow> c = Some (creds u)"
  by (auto simp: NewUploadWriter_def split: option.splits sum.splits)

lemma uploadChunk_error_shape:
  "fst (uploadChunk E s) \<noteq> Some (Errorf m)"
  by (auto simp: uploadChunk_result)

lemma select_case_logs:
  "Error_FailedUpload (Errorf m) \<notin> set (logs s) \<Longrightarrow>
   Error_FailedUpload (Errorf m) \<notin> set (logs (select_case E e s))"
  by (cases e)
     (auto simp: autoCommit_deferred_def uploadChunk_logged_logs uploadChunk_logs uploadChunk_result
           split: option.splits if_splits)

lemma loop_logs:
  "Error_FailedUpload (Errorf m) \<notin> set (logs s) \<Longrightarrow>
   Error_FailedUpload (Errorf m) \<notin> set (logs (autoCommit_loop E es s))"
  by (induction es arbitrary: s) (simp_all add: select_case_logs)

subsection \<open>A failed chunk is sent again\<close>

lemma failed_chunk_retried:
  assumes run: "\<not> returned s" and ne: "buff s \<noteq> []"
    and failed: "fst (uploadChunk E s) \<noteq> None"
    and fit: "length (buff s) + sum_list (map length ls) \<le> MaxChunkSize"
    and ok: "fst (uploadChunk E (autoCommit_loop E (TickerC # map ChLine ls) s)) = None"
  shows "buff (autoCommit_loop E (TickerC # map ChLine ls) s) = buff s @ concat ls"
    and "\<exists>req. sent (autoCommit_loop E (TickerC # map ChLine ls @ [TickerC]) s) =
            sent (autoCommit_loop E (TickerC # map ChLine ls) s) @ [req] \<and>
            Body req = buff s @ concat ls"
    and "buff (autoCommit_loop E (TickerC # map ChLine ls @ [TickerC]) s) = []"
proof -
  define s1 where "s1 = uploadChunk_logged E s"
  define s2 where "s2 = autoCommit_loop E (TickerC # map ChLine ls) s"
  define s3 where "s3 = autoCommit_loop E (TickerC # map ChLine ls @ [TickerC]) s"
  from failed have f: "fst (upload E (buff s) (uw s, sent s)) \<noteq> None"
    by (simp add: uploadChunk_result)
  have b1: "buff s1 = buff s"
    using f by (auto simp: s1_def uploadChunk_logged_fields uploadChunk_buff)
  have r1: "\<not> returned s1"
    using run by (simp add: s1_def uploadChunk_logged_fields)
  have "s2 = autoCommit_loop E (map ChLine ls) s1"
    using run ne by (simp add: s1_def s2_def)
  also have "\<dots> = s1\<lparr>buff := buff s1 @ concat ls\<rparr>"
    using r1 fit by (intro loop_lines_fit) (simp_all add: b1)
  finally have s2: "s2 = s1\<lparr>buff := buff s @ concat ls\<rparr>"
    by (simp add: b1)
  have b2: "buff s2 = buff s @ concat ls"
    by (simp add: s2)
  have r2: "\<not> returned s2" using r1 by (simp add: s2)
  have ne2: "buff s2 \<noteq> []" using ne by (simp add: b2)
  have "s3 = autoCommit_loop E [TickerC] s2"
    unfolding s3_def s2_def
    using loop_append [of E "TickerC # map ChLine ls" "[TickerC]" s] by simp
  then have fin: "s3 = uploadChunk_logged E s2"
    using r2 ne2 by simp
  from ok have o: "fst (upload E (buff s2) (uw s2, sent s2)) = None"
    by (simp add: uploadChunk_result s2_def)
  from upload_ok_sent [OF o] obtain req
    where "snd (snd (upload E (buff s2) (uw s2, sent s2))) = sent s2 @ [req]" "Body req = buff s2"
    by blast
  then have "sent s3 = sent s2 @ [req] \<and> Body req = buff s @ concat ls"
    by (simp add: fin uploadChunk_logged_fields uploadChunk_sent b2)
  then have e: "\<exists>req. sent s3 = sent s2 @ [req] \<and> Body req = buff s @ concat ls" ..
  have b3: "buff s3 = []"
    using o by (simp add: fin uploadChunk_logged_fields uploadChunk_buff)
  show "buff (autoCommit_loop E (TickerC # map ChLine ls) s) = buff s @ concat ls"
    using b2 unfolding s2_def .
  show "\<exists>req. sent (autoCommit_loop E (TickerC # map ChLine ls @ [TickerC]) s) =
            sent (autoCommit_loop E (TickerC # map ChLine ls) s) @ [req] \<and>
            Body req = buff s @ concat ls"
    using e unfolding s2_def s3_def .
  show "buff (autoCommit_loop E (TickerC # map ChLine ls @ [TickerC]) s) = []"
    using b3 unfolding s3_def .
qed

lemma upload_failure_modes:
  assumes "getRequest E u data = (Inr req, u1)"
  shows "client_Do E hist req = Inl err \<Longrightarrow> fst (upload E data (u, hist)) \<noteq> None"
    and "client_Do E hist req = Inr resp \<Longrightarrow> StatusCode resp \<noteq> 200 \<Longrightarrow>
           fst (upload E data (u, hist)) \<noteq> None"
    and "client_Do E hist req = Inr resp \<Longrightarrow> ReadAll_Body resp = Inr bin \<Longrightarrow>
           json_Unmarshal E bin = Inl err \<Longrightarrow> fst (upload E data (u, hist)) \<noteq> None"
  using assms by (cases rule: upload_cases [of E u data hist]; auto)+

subsection \<open>Reading a full record\<close>

lemma length_full_record: "length full_record = 4194304"
  by (simp add: full_record_def MaxChunkSize_def)

lemma full_record_not_Nil: "full_record \<noteq> []"
  by (simp add: full_record_def)

lemma ReadString_replicate:
  "c \<noteq> d \<Longrightarrow> ReadString d (replicate n c @ d # rest) = (replicate n c @ [d], None, rest)"
  by (induction n) simp_all

lemma ReadString_full_record:
  "ReadString newline (full_record @ rest) = (full_record, None, rest)"
  using ReadString_replicate [of "CHR ''a''" newline "MaxChunkSize - 1" rest]
  by (simp add: full_record_def newline_def)

subsection \<open>Unfolding the definitions on concrete inputs\<close>

lemmas example_defs =
  example_env_def example_writer_def example_creds_def server_ok_def server_down_def
  server_down_once_def server_two_ids_def server_broken_body_def

lemmas code_defs =
  upload_def getRequest_def Let_def StatusOK_def MethodPost_def MethodPatch_def uploadEndpoint_def
  appendEndpoint_def Header_Set_def uploadChunk_def uploadChunk_logged_def autoCommit_def
  autoCommit_start_def autoCommit_deferred_def MaxChunkSize_def

subsection \<open>The shape of a request\<close>

text \<open>
  C6. Every request that \<open>getRequest\<close> constructs is a POST to the server URL with the
  path \<^verbatim>\<open>/v1/scans/import\<close> when no scan id is set, and a PATCH to the server URL
  with the path \<^verbatim>\<open>/v1/scans/{scanID}/import\<close> when one is set; in both cases it
  carries the API key under the API-key header name, the content type
  \<^verbatim>\<open>application/octet-stream\<close>, \<^verbatim>\<open>Accept: application/json\<close>, the
  client and version parameters as its raw query, and the chunk as its body. The
  three header names are taken to be distinct in canonical form, as they are in
  net/http for any API-key header name other than the two fixed ones.
\<close>

theorem getRequest_shape:
  assumes req: "getRequest E u bin = (Inr req, u')"
    and names: "distinct (map (CanonicalMIMEHeaderKey E) [ApiKeyHeaderName E, ''Content-Type'', ''Accept''])"
  shows "(scanID u = [] \<longrightarrow>
            Method req = ''POST'' \<and>
            ReqURL req = URL_String E ((uploadURL u)\<lparr>Path := ''/v1/scans/import''\<rparr>)) \<and>
         (scanID u \<noteq> [] \<longrightarrow>
            Method req = ''PATCH'' \<and>
            ReqURL req = URL_String E ((uploadURL u)\<lparr>Path := ''/v1/scans/'' @ scanID u @ ''/import''\<rparr>)) \<and>
         Header_Get E (Header req) (ApiKeyHeaderName E) = Some (APIKey (creds u)) \<and>
         Header_Get E (Header req) ''Content-Type'' = Some ''application/octet-stream'' \<and>
         Header_Get E (Header req) ''Accept'' = Some ''application/json'' \<and>
         ReqRawQuery req = GetpdtmParams E (config_Version E) \<and>
         Body req = bin"
proof -
  from req have r: "req =
      \<lparr>Method = (if scanID u = [] then MethodPost else MethodPatch),
       ReqURL = URL_String E ((uploadURL u)\<lparr>Path := (if scanID u = [] then uploadEndpoint else appendEndpoint (scanID u))\<rparr>),
       Body = bin,
       ReqRawQuery = GetpdtmParams E (config_Version E),
       Header = Header_Set E (Header_Set E (Header_Set E Map.empty (ApiKeyHeaderName E) (APIKey (creds u)))
                  ''Content-Type'' ''application/octet-stream'') ''Accept'' ''application/json''\<rparr>"
    by (auto simp: getRequest_def Let_def split: option.splits if_splits)
  show ?thesis using names
    by (simp add: r MethodPost_def MethodPatch_def uploadEndpoint_def appendEndpoint_def
        Header_Get_def Header_Set_def)
qed

text \<open>
  The theorem at a writer whose scan id is \<open>s1\<close>, in the example environment: the
  request is a PATCH to \<^verbatim>\<open>https://api.example.io/v1/scans/s1/import\<close>.
\<close>

theorem getRequest_shape_witness:
  "getRequest (example_env server_down) (example_writer\<lparr>scanID := ''s1''\<rparr>) ''x'' =
     (Inr \<lparr>Method = ''PATCH'', ReqURL = ''https://api.example.io/v1/scans/s1/import'', Body = ''x'',
           ReqRawQuery = ''v=3.0.0'',
           Header = [''X-Api-Key'' \<mapsto> ''secret'', ''Content-Type'' \<mapsto> ''application/octet-stream'',
                     ''Accept'' \<mapsto> ''application/json'']\<rparr>,
      example_writer\<lparr>scanID := ''s1'', uploadURL := (uploadURL example_writer)\<lparr>Path := ''/v1/scans/s1/import''\<rparr>\<rparr>)
   \<and> distinct (map (CanonicalMIMEHeaderKey (example_env server_down))
        [ApiKeyHeaderName (example_env server_down), ''Content-Type'', ''Accept''])
   \<and> Header_Get (example_env server_down)
        [''X-Api-Key'' \<mapsto> ''secret'', ''Content-Type'' \<mapsto> ''application/octet-stream'',
         ''Accept'' \<mapsto> ''application/json''] ''X-Api-Key'' = Some ''secret''"
proof -
  have g: "getRequest (example_env server_down) (example_writer\<lparr>scanID := ''s1''\<rparr>) ''x'' =
     (Inr \<lparr>Method = ''PATCH'', ReqURL = ''https://api.example.io/v1/scans/s1/import'', Body = ''x'',
           ReqRawQuery = ''v=3.0.0'',
           Header = [''X-Api-Key'' \<mapsto> ''secret'', ''Content-Type'' \<mapsto> ''application/octet-stream'',
                     ''Accept'' \<mapsto> ''application/json'']\<rparr>,
      example_writer\<lparr>scanID := ''s1'', uploadURL := (uploadURL example_writer)\<lparr>Path := ''/v1/scans/s1/import''\<rparr>\<rparr>)"
    by (simp add: getRequest_def example_env_def example_writer_def example_creds_def Let_def
        MethodPatch_def appendEndpoint_def Header_Set_def)
  have d: "distinct (map (CanonicalMIMEHeaderKey (example_env server_down))
        [ApiKeyHeaderName (example_env server_down), ''Content-Type'', ''Accept''])"
    by (simp add: example_env_def)
  from getRequest_shape [OF g d] g d show ?thesis
    by (simp add: example_env_def example_writer_def example_creds_def)
qed

subsection \<open>The order of the checks in upload\<close>

text \<open>
  C10. \<open>upload\<close> reads the whole response body before it looks at the status code.
  For a request that was built and a response that the client returned: when reading
  the body fails, \<open>upload\<close> returns that error (wrapped with
  \<^verbatim>\<open>could not get id from response\<close>) whatever the status code is; when the body
  was read and the status is not 200, it returns the error that carries the status code
  and the URL; and that error is returned only when the body was read and the status is
  not 200.
\<close>

theorem upload_body_read_first:
  assumes g: "getRequest E u data = (Inr req, u1)" and d: "client_Do E hist req = Inr resp"
  shows "(ReadAll_Body resp = Inl err \<longrightarrow>
            fst (upload E data (u, hist)) = Some (Msgf err ''could not get id from response'')) \<and>
         (ReadAll_Body resp = Inr bin \<and> StatusCode resp \<noteq> 200 \<longrightarrow>
            fst (upload E data (u, hist)) = Some (ErrorfStatus (StatusCode resp) (Request_URL resp))) \<and>
         (fst (upload E data (u, hist)) = Some (ErrorfStatus code url) \<longrightarrow>
            (\<exists>b. ReadAll_Body resp = Inr b) \<and> StatusCode resp = code \<and> code \<noteq> 200 \<and>
            url = Request_URL resp)"
  using g d by (cases rule: upload_cases [of E u data hist]) auto

text \<open>
  The theorem at a response with status 500 whose body cannot be read: the error is the
  one of the body, not the one of the status.
\<close>

theorem upload_body_read_first_witness:
  "fst (getRequest (example_env server_broken_body) example_writer ''x'') =
     Inr \<lparr>Method = ''POST'', ReqURL = ''https://api.example.io/v1/scans/import'', Body = ''x'',
          ReqRawQuery = ''v=3.0.0'',
          Header = [''X-Api-Key'' \<mapsto> ''secret'', ''Content-Type'' \<mapsto> ''application/octet-stream'',
                    ''Accept'' \<mapsto> ''application/json'']\<rparr> \<and>
   StatusCode \<lparr>StatusCode = 500, ReadAll_Body = Inl (LibraryError ''unexpected EOF''),
       Request_URL = ''https://api.example.io/v1/scans/import''\<rparr> \<noteq> 200 \<and>
   fst (upload (example_env server_broken_body) ''x'' (example_writer, [])) =
     Some (Msgf (LibraryError ''unexpected EOF'') ''could not get id from response'')"
proof -
  let ?E = "example_env server_broken_body"
  let ?req = "\<lparr>Method = ''POST'', ReqURL = ''https://api.example.io/v1/scans/import'', Body = ''x'',
          ReqRawQuery = ''v=3.0.0'',
          Header = [''X-Api-Key'' \<mapsto> ''secret'', ''Content-Type'' \<mapsto> ''application/octet-stream'',
                    ''Accept'' \<mapsto> ''application/json'']\<rparr>"
  let ?resp = "\<lparr>StatusCode = 500, ReadAll_Body = Inl (LibraryError ''unexpected EOF''),
       Request_URL = ''https://api.example.io/v1/scans/import''\<rparr>"
  have g: "getRequest ?E example_writer ''x'' = (Inr ?req, example_writer)"
    by (simp add: code_defs example_defs)
  have d: "client_Do ?E [] ?req = Inr ?resp"
    by (simp add: example_defs)
  from upload_body_read_first [OF g d, of "LibraryError ''unexpected EOF''"] g
  show ?thesis by simp
qed

subsection \<open>SetScanID\<close>

text \<open>
  C9. \<open>SetScanID\<close> overwrites the scan id whatever the writer holds: the scan id of
  the result is the argument, for every writer, also for one that has just adopted an
  identifier in \<open>upload\<close>. The guard of lines 197-199 is not applied here.
\<close>

theorem SetScanID_overwrites:
  "scanID (SetScanID u sid) = sid \<and>
   scanID (SetScanID (fst (snd (upload E data (u, hist)))) sid) = sid \<and>
   SetScanID u sid = u\<lparr>scanID := sid\<rparr>"
  by (simp add: SetScanID_def)

text \<open>
  The theorem after an upload whose response made the writer adopt \<open>s1\<close>: the call
  replaces it.
\<close>

theorem SetScanID_overwrites_witness:
  "scanID (fst (snd (upload (example_env (server_ok ''{id:s1}'')) ''x'' (example_writer, [])))) = ''s1'' \<and>
   scanID (SetScanID (fst (snd (upload (example_env (server_ok ''{id:s1}'')) ''x'' (example_writer, [])))) ''other'')
     = ''other''"
  using SetScanID_overwrites [of example_writer "''other''" "example_env (server_ok ''{id:s1}'')" "''x''" "[]"]
  by (simp add: code_defs example_defs)

subsection \<open>The scan id is set once by responses\<close>

text \<open>
  C5. Responses move the scan id from empty to set at most once. A writer whose scan id
  is set keeps it through \<open>upload\<close>; a failed upload never changes it; a successful
  response (status 200, a body that decodes) sets it to the identifier of the response
  exactly when that identifier is not empty and no scan id is set; and through any
  run of the loop, whatever the later responses hold, a scan id that is set stays what
  it is.
\<close>

theorem scanID_set_once:
  "(scanID u \<noteq> [] \<longrightarrow> scanID (fst (snd (upload E data (u, hist)))) = scanID u) \<and>
   (fst (upload E data (u, hist)) \<noteq> None \<longrightarrow> scanID (fst (snd (upload E data (u, hist)))) = scanID u) \<and>
   (getRequest E u data = (Inr req, u1) \<and> client_Do E hist req = Inr resp \<and>
    ReadAll_Body resp = Inr bin \<and> StatusCode resp = 200 \<and> json_Unmarshal E bin = Inr r \<longrightarrow>
      fst (upload E data (u, hist)) = None \<and>
      scanID (fst (snd (upload E data (u, hist)))) =
        (if ID r \<noteq> [] \<and> scanID u = [] then ID r else scanID u)) \<and>
   (scanID (uw s) \<noteq> [] \<longrightarrow> scanID (uw (autoCommit_loop E es s)) = scanID (uw s))"
proof -
  have "fst (upload E data (u, hist)) = None \<and>
      scanID (fst (snd (upload E data (u, hist)))) =
        (if ID r \<noteq> [] \<and> scanID u = [] then ID r else scanID u)"
    if "getRequest E u data = (Inr req, u1)" "client_Do E hist req = Inr resp"
       "ReadAll_Body resp = Inr bin" "StatusCode resp = 200" "json_Unmarshal E bin = Inr r"
    using that by (cases rule: upload_cases [of E u data hist]) (auto dest: getRequest_keeps')
  then show ?thesis
    by (simp add: upload_scanID_kept upload_failed_scanID loop_scanID)
qed

text \<open>
  The theorem at a writer that has adopted \<open>s1\<close> and a server that answers \<open>s2\<close>: the
  next chunk goes out as a PATCH and the scan id is still \<open>s1\<close>.
\<close>

theorem scanID_set_once_witness:
  "scanID (fst (snd (upload (example_env (server_ok ''{id:s1}'')) ''a'' (example_writer, [])))) = ''s1'' \<and>
   scanID (uw (autoCommit_start (example_writer\<lparr>scanID := ''s1''\<rparr>))) \<noteq> [] \<and>
   map Method (sent (autoCommit_loop (example_env (server_ok ''{id:s2}'')) [ChLine ''b'', TickerC]
      (autoCommit_start (example_writer\<lparr>scanID := ''s1''\<rparr>)))) = [''PATCH''] \<and>
   scanID (uw (autoCommit_loop (example_env (server_ok ''{id:s2}'')) [ChLine ''b'', TickerC]
      (autoCommit_start (example_writer\<lparr>scanID := ''s1''\<rparr>)))) = ''s1''"
proof -
  let ?s = "autoCommit_start (example_writer\<lparr>scanID := ''s1''\<rparr>)"
  let ?E = "example_env (server_ok ''{id:s2}'')"
  have 1: "scanID (fst (snd (upload (example_env (server_ok ''{id:s1}'')) ''a'' (example_writer, [])))) = ''s1''"
    by (simp add: code_defs example_defs)
  have 2: "scanID (uw ?s) \<noteq> []"
    by (simp add: autoCommit_start_def)
  have 3: "map Method (sent (autoCommit_loop ?E [ChLine ''b'', TickerC] ?s)) = [''PATCH'']"
    by (simp add: code_defs example_defs)
  have 4: "scanID (uw ?s) = ''s1''"
    by (simp add: autoCommit_start_def)
  from scanID_set_once [where s = ?s and E = ?E and es = "[ChLine ''b'', TickerC]"] 2
  have "scanID (uw (autoCommit_loop ?E [ChLine ''b'', TickerC] ?s)) = scanID (uw ?s)"
    by blast
  with 1 2 3 4 show ?thesis by simp
qed

subsection \<open>Missing credentials\<close>

text \<open>
  C8. \<open>NewUploadWriter\<close> with nil credentials returns the error
  \<^verbatim>\<open>no credentials provided\<close> and no writer, and it returns that error for nil
  credentials only. A writer it returns holds the credentials it was given, and the
  loop never changes them. After construction the error does not come back: neither
  \<open>upload\<close> nor \<open>uploadChunk\<close> returns it, and the loop never logs it.
\<close>

theorem NewUploadWriter_nil_creds:
  "NewUploadWriter E None = Inl (Errorf ''no credentials provided'') \<and>
   (NewUploadWriter E c = Inl (Errorf ''no credentials provided'') \<longrightarrow> c = None) \<and>
   (NewUploadWriter E c = Inr u \<longrightarrow>
      c = Some (creds u) \<and> creds (uw (autoCommit E es u)) = creds u) \<and>
   fst (upload E data (w, hist)) \<noteq> Some (Errorf ''no credentials provided'') \<and>
   fst (uploadChunk E s) \<noteq> Some (Errorf ''no credentials provided'') \<and>
   Error_FailedUpload (Errorf ''no credentials provided'') \<notin> set (logs (autoCommit E es w))"
proof -
  have "Error_FailedUpload (Errorf ''no credentials provided'') \<notin> set (logs (autoCommit E es w))"
    unfolding autoCommit_def by (rule loop_logs) (simp add: autoCommit_start_def)
  moreover have "creds (uw (autoCommit E es u)) = creds u"
    by (simp add: autoCommit_def loop_creds autoCommit_start_def)
  moreover have "NewUploadWriter E None = Inl (Errorf ''no credentials provided'')"
    by (simp add: NewUploadWriter_def)
  ultimately show ?thesis
    using NewUploadWriter_cases [of E c] upload_error_shape [of E data w hist]
      uploadChunk_error_shape [of E s]
    by blast
qed

text \<open>
  The theorem in the example environment: nil credentials are refused, the example
  credentials give the example writer, and a run with a failing transport logs the
  transport's error and keeps the credentials.
\<close>

theorem NewUploadWriter_nil_creds_witness:
  "NewUploadWriter (example_env server_down) None = Inl (Errorf ''no credentials provided'') \<and>
   NewUploadWriter (example_env server_down) (Some example_creds) = Inr example_writer \<and>
   creds (uw (autoCommit (example_env server_down) [ChLine ''a'', CtxDone] example_writer)) = example_creds \<and>
   logs (autoCommit (example_env server_down) [ChLine ''a'', CtxDone] example_writer) =
     [Error_FailedUpload (Msgf (Msgf (LibraryError ''connection refused'') ''could not upload results'')
        ''could not upload chunk''), Verbose_UploadSkipped]"
proof -
  let ?E = "example_env server_down"
  have 1: "NewUploadWriter ?E (Some example_creds) = Inr example_writer"
    by (simp add: NewUploadWriter_def example_defs uploadEndpoint_def)
  have 2: "logs (autoCommit ?E [ChLine ''a'', CtxDone] example_writer) =
     [Error_FailedUpload (Msgf (Msgf (LibraryError ''connection refused'') ''could not upload results'')
        ''could not upload chunk''), Verbose_UploadSkipped]"
    by (simp add: code_defs example_defs)
  have 3: "creds example_writer = example_creds"
    by (simp add: example_writer_def)
  from NewUploadWriter_nil_creds [of ?E "Some example_creds" example_writer "[ChLine ''a'', CtxDone]"] 1 2 3
  show ?thesis by simp
qed

subsection \<open>Lazy batching\<close>

text \<open>
  C7. While the loop only receives lines (the ticker does not fire, the context is
  not done, the channel is not closed) and the bytes in the buffer plus the bytes of
  the lines stay at or below \<open>MaxChunkSize\<close>, no request is handed to the client: the
  loop appends each line to the buffer and changes nothing else.
\<close>

theorem lazy_batching:
  assumes "\<not> returned s" and "length (buff s) + sum_list (map length ls) \<le> MaxChunkSize"
  shows "sent (autoCommit_loop E (map ChLine ls) s) = sent s \<and>
         buff (autoCommit_loop E (map ChLine ls) s) = buff s @ concat ls \<and>
         autoCommit_loop E (map ChLine ls) s = s\<lparr>buff := buff s @ concat ls\<rparr>"
  using assms by (simp add: loop_lines_fit)

text \<open>The theorem at three short lines received by a loop that has just started.\<close>

theorem lazy_batching_witness:
  "\<not> returned (autoCommit_start example_writer) \<and>
   length (buff (autoCommit_start example_writer)) + sum_list (map length [''ab'', ''cd'', ''e''])
     \<le> MaxChunkSize \<and>
   sent (autoCommit (example_env (server_ok ''{id:s1}'')) [ChLine ''ab'', ChLine ''cd'', ChLine ''e'']
     example_writer) = [] \<and>
   buff (autoCommit (example_env (server_ok ''{id:s1}'')) [ChLine ''ab'', ChLine ''cd'', ChLine ''e'']
     example_writer) = ''abcde''"
proof -
  have 1: "\<not> returned (autoCommit_start example_writer)"
    by (simp add: autoCommit_start_def)
  have 2: "length (buff (autoCommit_start example_writer)) + sum_list (map length [''ab'', ''cd'', ''e''])
     \<le> MaxChunkSize"
    by (simp add: autoCommit_start_def MaxChunkSize_def)
  from lazy_batching [OF 1 2, of "example_env (server_ok ''{id:s1}'')"] 1 2
  show ?thesis by (simp add: autoCommit_def autoCommit_start_def)
qed

subsection \<open>A flush resets the buffer only on success\<close>

text \<open>
  C4. For every flush, \<open>uploadChunk\<close> empties the buffer when \<open>upload\<close> succeeds and
  leaves it as it is otherwise, and it returns an error exactly when \<open>upload\<close> does
  (the same error, wrapped). A transport error, a status other than 200 and a body that
  does not decode each make it return an error and keep the buffer. And when a flush
  of a non-empty buffer fails, lines that fit are appended, and the next flush
  succeeds, the request of that flush has as its body the old buffer followed by the
  lines, in order, and the buffer is empty afterwards.
\<close>

theorem flush_keeps_failed_chunk:
  "buff (snd (uploadChunk E s)) =
     (if fst (upload E (buff s) (uw s, sent s)) = None then [] else buff s) \<and>
   fst (uploadChunk E s) =
     map_option (\<lambda>err. Msgf err ''could not upload chunk'') (fst (upload E (buff s) (uw s, sent s))) \<and>
   (getRequest E (uw s) (buff s) = (Inr req, u1) \<and>
    (client_Do E (sent s) req = Inl err \<or>
     client_Do E (sent s) req = Inr resp \<and>
       (StatusCode resp \<noteq> 200 \<or> ReadAll_Body resp = Inr bin \<and> json_Unmarshal E bin = Inl err)) \<longrightarrow>
      fst (uploadChunk E s) \<noteq> None \<and> buff (snd (uploadChunk E s)) = buff s) \<and>
   (\<not> returned s \<and> buff s \<noteq> [] \<and> fst (uploadChunk E s) \<noteq> None \<and>
    length (buff s) + sum_list (map length ls) \<le> MaxChunkSize \<and>
    fst (uploadChunk E (autoCommit_loop E (TickerC # map ChLine ls) s)) = None \<longrightarrow>
      buff (autoCommit_loop E (TickerC # map ChLine ls @ [TickerC]) s) = [] \<and>
      (\<exists>r. sent (autoCommit_loop E (TickerC # map ChLine ls @ [TickerC]) s) =
              sent (autoCommit_loop E (TickerC # map ChLine ls) s) @ [r] \<and>
            Body r = buff s @ concat ls))"
proof -
  have a: "fst (uploadChunk E s) \<noteq> None \<and> buff (snd (uploadChunk E s)) = buff s"
    if "getRequest E (uw s) (buff s) = (Inr req, u1)"
      and "client_Do E (sent s) req = Inl err \<or>
           client_Do E (sent s) req = Inr resp \<and>
            (StatusCode resp \<noteq> 200 \<or> ReadAll_Body resp = Inr bin \<and> json_Unmarshal E bin = Inl err)"
  proof -
    from that upload_failure_modes [OF that(1)]
    have "fst (upload E (buff s) (uw s, sent s)) \<noteq> None" by blast
    then show ?thesis by (auto simp: uploadChunk_result uploadChunk_buff)
  qed
  show ?thesis
    using a failed_chunk_retried [of s E ls]
    by (simp add: uploadChunk_buff uploadChunk_result)
qed

text \<open>
  The theorem with a transport that fails once: the buffer \<open>a\<close> is sent and kept, the
  lines \<open>b\<close> and \<open>c\<close> are appended, and the second request carries \<open>abc\<close>.
\<close>

theorem flush_keeps_failed_chunk_witness:
  "map Body (sent (autoCommit_loop (example_env server_down_once) [TickerC, ChLine ''b'', ChLine ''c'', TickerC]
      ((autoCommit_start example_writer)\<lparr>buff := ''a''\<rparr>))) = [''a'', ''abc''] \<and>
   buff (autoCommit_loop (example_env server_down_once) [TickerC, ChLine ''b'', ChLine ''c'']
      ((autoCommit_start example_writer)\<lparr>buff := ''a''\<rparr>)) = ''abc'' \<and>
   buff (autoCommit_loop (example_env server_down_once) [TickerC, ChLine ''b'', ChLine ''c'', TickerC]
      ((autoCommit_start example_writer)\<lparr>buff := ''a''\<rparr>)) = []"
proof -
  let ?E = "example_env server_down_once"
  let ?s = "(autoCommit_start example_writer)\<lparr>buff := ''a''\<rparr>"
  have 1: "\<not> returned ?s" "buff ?s \<noteq> []" "length (buff ?s) + sum_list (map length [''b'', ''c'']) \<le> MaxChunkSize"
    by (simp_all add: autoCommit_start_def MaxChunkSize_def)
  have 2: "fst (uploadChunk ?E ?s) \<noteq> None"
    by (simp add: code_defs example_defs)
  have 3: "fst (uploadChunk ?E (autoCommit_loop ?E (TickerC # map ChLine [''b'', ''c'']) ?s)) = None"
    by (simp add: code_defs example_defs)
  have 4: "map Body (sent (autoCommit_loop ?E [TickerC, ChLine ''b'', ChLine ''c'', TickerC] ?s)) = [''a'', ''abc'']"
    by (simp add: code_defs example_defs)
  have 5: "buff (autoCommit_loop ?E [TickerC, ChLine ''b'', ChLine ''c''] ?s) = ''abc''"
    by (simp add: code_defs example_defs)
  from flush_keeps_failed_chunk [of ?E ?s _ _ _ _ _ "[''b'', ''c'']"] 1 2 3
  have "buff (autoCommit_loop ?E (TickerC # map ChLine [''b'', ''c''] @ [TickerC]) ?s) = []"
    by blast
  with 4 5 show ?thesis by simp
qed

subsection \<open>A record that does not fit is lost\<close>

text \<open>
  C1 does not hold of the code. When the buffer holds a full record and a short record
  arrives, the loop flushes the buffer and goes back to the \<^verbatim>\<open>select\<close>:
  \<^verbatim>\<open>buff.WriteString(line)\<close> stands in the \<^verbatim>\<open>else\<close> branch only
  (lines 152-159). With a server that accepts the chunk the buffer is empty afterwards
  and the request carried the full record only; with a transport that fails the buffer
  is still the full record. In neither run is the short record in the buffer.
\<close>

theorem overflow_record_dropped:
  "buff (autoCommit (example_env (server_ok ''{id:s1}'')) [ChLine full_record, ChLine (''b'' @ [newline])]
      example_writer) = [] \<and>
   map Body (sent (autoCommit (example_env (server_ok ''{id:s1}'')) [ChLine full_record, ChLine (''b'' @ [newline])]
      example_writer)) = [full_record] \<and>
   buff (autoCommit (example_env server_down) [ChLine full_record, ChLine (''b'' @ [newline])]
      example_writer) = full_record"
  by (simp add: code_defs example_defs length_full_record full_record_not_Nil)

text \<open>
  C2 does not hold of the code. On a stream of two records, the full one and a short
  one, the reading goroutine sends both and counts two; the loop uploads the first
  when the second arrives and never stores the second; at the end of the stream the
  buffer is empty, the only request carried the first record, and the summary reports
  two results uploaded.
\<close>

theorem stream_record_lost:
  "collector two_records 0 = ([full_record, ''b'' @ [newline]], 2) \<and>
   map Body (sent (autoCommit_stream (example_env (server_ok ''{id:s1}'')) two_records example_writer)) =
     [full_record] \<and>
   buff (autoCommit_stream (example_env (server_ok ''{id:s1}'')) two_records example_writer) = [] \<and>
   logs (autoCommit_stream (example_env (server_ok ''{id:s1}'')) two_records example_writer) =
     [Warning_UploadedChunk ''https://cloud.example.io/scans/s1'',
      Info_Uploaded 2 ''https://cloud.example.io/scans/s1'']"
proof -
  have "collector two_records 0 =
      (case collector (''b'' @ [newline]) 1 of (lines, cnt) \<Rightarrow> (full_record # lines, cnt))"
    unfolding two_records_def
    by (subst collector.simps) (simp add: ReadString_full_record)
  moreover have "collector (''b'' @ [newline]) 1 = ([''b'' @ [newline]], 2)"
    by (simp add: newline_def)
  ultimately have c: "collector two_records 0 = ([full_record, ''b'' @ [newline]], 2)"
    by simp
  have w: "counter example_writer = 0"
    by (simp add: example_writer_def)
  show ?thesis
    unfolding autoCommit_stream_def w c
    by (simp add: code_defs example_defs length_full_record full_record_not_Nil)
qed


end
